theory Spec2Isabelle
  imports Main "HOL-Library.Word"
begin

section \<open>The port state machine of \<^verbatim>\<open>fsm.h\<close>\<close>

text \<open>
  A shallow embedding of \<^verbatim>\<open>experimental/tiledb/common/dag/state_machine/fsm.h\<close>:
  the state, event and action alphabets, the three tables of each stage count, the
  stringification helpers and the driver \<^verbatim>\<open>PortFiniteStateMachine::event\<close>.
\<close>

subsection \<open>Alphabets\<close>

text \<open>
  \<^verbatim>\<open>PortState<two_stage>\<close> and \<^verbatim>\<open>PortState<three_stage>\<close>. Both enums have the members
  \<^verbatim>\<open>error\<close> and \<^verbatim>\<open>done\<close>; they carry the stage count as a suffix here.
\<close>

datatype two_port_type = st_00 | st_01 | st_10 | st_11 | error_2 | done_2

datatype three_port_type =
  st_000 | st_001 | st_010 | st_011 | st_100 | st_101 | st_110 | st_111 | error_3 | done_3

datatype PortEvent = source_fill | source_push | sink_drain | sink_pull | shutdown

datatype PortAction =
  none | ac_return | source_move | sink_move | notify_source | notify_sink
  | source_wait | sink_wait | error

text \<open>\<^verbatim>\<open>to_index\<close>: the ordinal of an enum member.\<close>

fun to_index_two :: "two_port_type \<Rightarrow> nat" where
  "to_index_two st_00 = 0"
| "to_index_two st_01 = 1"
| "to_index_two st_10 = 2"
| "to_index_two st_11 = 3"
| "to_index_two error_2 = 4"
| "to_index_two done_2 = 5"

fun to_index_three :: "three_port_type \<Rightarrow> nat" where
  "to_index_three st_000 = 0"
| "to_index_three st_001 = 1"
| "to_index_three st_010 = 2"
| "to_index_three st_011 = 3"
| "to_index_three st_100 = 4"
| "to_index_three st_101 = 5"
| "to_index_three st_110 = 6"
| "to_index_three st_111 = 7"
| "to_index_three error_3 = 8"
| "to_index_three done_3 = 9"

fun to_index_event :: "PortEvent \<Rightarrow> nat" where
  "to_index_event source_fill = 0"
| "to_index_event source_push = 1"
| "to_index_event sink_drain = 2"
| "to_index_event sink_pull = 3"
| "to_index_event shutdown = 4"

fun to_index_action :: "PortAction \<Rightarrow> nat" where
  "to_index_action none = 0"
| "to_index_action ac_return = 1"
| "to_index_action source_move = 2"
| "to_index_action sink_move = 3"
| "to_index_action notify_source = 4"
| "to_index_action notify_sink = 5"
| "to_index_action source_wait = 6"
| "to_index_action sink_wait = 7"
| "to_index_action error = 8"

definition n_events :: nat where
  "n_events = to_index_event shutdown + 1"

definition n_actions :: nat where
  "n_actions = to_index_action error + 1"

definition n_states_two :: nat where
  "n_states_two = to_index_two done_2 + 1"

definition n_states_three :: nat where
  "n_states_three = to_index_three done_3 + 1"

subsection \<open>Strings for debugging\<close>

text \<open>
  \<^verbatim>\<open>std::vector::operator[]\<close>: an index past the end is undefined behaviour, which the
  model reports as \<open>None\<close>.
\<close>

definition at :: "'a list \<Rightarrow> nat \<Rightarrow> 'a option" where
  "at xs i = (if i < length xs then Some (xs ! i) else None)"

text \<open>
  The variable template \<^verbatim>\<open>port_state_strings<enumeration>\<close>. Its primary template is a
  default-constructed, hence empty, vector (lines 158-159); the two explicit
  specialisations are for the arguments \<^verbatim>\<open>two_stage\<close> and \<^verbatim>\<open>three_stage\<close>.
\<close>

definition port_state_strings_primary :: "string list" where
  "port_state_strings_primary = []"

definition port_state_strings_two_stage :: "string list" where
  "port_state_strings_two_stage =
     [''st_00'', ''st_01'', ''st_10'', ''st_11'', ''error'', ''done'']"

definition port_state_strings_three_stage :: "string list" where
  "port_state_strings_three_stage =
     [''st_000'', ''st_001'', ''st_010'', ''st_011'', ''st_100'', ''st_101'', ''st_110'',
      ''st_111'', ''error'', ''done'']"

text \<open>
  \<^verbatim>\<open>str(two_port_enum_type)\<close> reads \<^verbatim>\<open>port_state_strings<two_stage>\<close> (line 201).
  \<^verbatim>\<open>str(three_port_enum_type)\<close> reads \<^verbatim>\<open>port_state_strings<PortState<three_stage>>\<close>
  (line 196): the argument is \<^verbatim>\<open>PortState<three_stage>\<close>, not \<^verbatim>\<open>three_stage\<close>, so this
  is an instance of the primary template.
\<close>

definition str_two :: "two_port_type \<Rightarrow> string option" where
  "str_two st = at port_state_strings_two_stage (to_index_two st)"

definition str_three :: "three_port_type \<Rightarrow> string option" where
  "str_three st = at port_state_strings_primary (to_index_three st)"

definition event_strings :: "string list" where
  "event_strings = [''source_fill'', ''source_push'', ''sink_drain'', ''sink_pull'', ''shutdown'']"

definition str_event :: "PortEvent \<Rightarrow> string option" where
  "str_event ev = at event_strings (to_index_event ev)"

definition action_strings :: "string list" where
  "action_strings =
     [''none'', ''ac_return'', ''source_move'', ''sink_move'', ''notify_source'',
      ''notify_sink'', ''source_wait'', ''sink_wait'', ''error'']"

definition str_action :: "PortAction \<Rightarrow> string option" where
  "str_action ac = at action_strings (to_index_action ac)"

subsection \<open>Tables for state transitions, exit events, and entry events\<close>

text \<open>
  The arrays of lines 312-401, row by row: indexed by state, then by event in the order
  \<^verbatim>\<open>source_fill, source_push, sink_drain, sink_pull, shutdown\<close>.
\<close>

definition transition_table_2 :: "two_port_type list list" where
  "transition_table_2 =
   [ \<comment> \<open>st_00\<close> [st_10,   st_00,   error_2, st_00,   error_2],
     \<comment> \<open>st_01\<close> [st_11,   st_01,   st_00,   st_01,   error_2],
     \<comment> \<open>st_10\<close> [error_2, st_01,   error_2, st_01,   error_2],
     \<comment> \<open>st_11\<close> [error_2, st_11,   st_10,   st_11,   error_2],
     \<comment> \<open>error\<close> [error_2, error_2, error_2, error_2, error_2],
     \<comment> \<open>done\<close>  [error_2, error_2, error_2, error_2, error_2] ]"

definition exit_table_2 :: "PortAction list list" where
  "exit_table_2 =
   [ \<comment> \<open>st_00\<close> [none, none,        none, sink_wait, none],
     \<comment> \<open>st_01\<close> [none, none,        none, none,      none],
     \<comment> \<open>st_10\<close> [none, source_move, none, sink_move, none],
     \<comment> \<open>st_11\<close> [none, source_wait, none, none,      none],
     \<comment> \<open>error\<close> [none, none,        none, none,      none],
     \<comment> \<open>done\<close>  [none, none,        none, none,      none] ]"

definition entry_table_2 :: "PortAction list list" where
  "entry_table_2 =
   [ \<comment> \<open>st_00\<close> [none,        none,        notify_source, none,      none],
     \<comment> \<open>st_01\<close> [none,        none,        none,          none,      none],
     \<comment> \<open>st_10\<close> [notify_sink, source_move, notify_source, sink_move, none],
     \<comment> \<open>st_11\<close> [notify_sink, none,        none,          none,      none],
     \<comment> \<open>error\<close> [none,        none,        none,          none,      none],
     \<comment> \<open>done\<close>  [none,        none,        none,          none,      none] ]"

definition transition_table_3 :: "three_port_type list list" where
  "transition_table_3 =
   [ \<comment> \<open>st_000\<close> [st_100,  st_000,  error_3, st_000,  error_3],
     \<comment> \<open>st_001\<close> [st_101,  st_001,  st_000,  st_001,  error_3],
     \<comment> \<open>st_010\<close> [st_110,  st_001,  error_3, st_001,  error_3],
     \<comment> \<open>st_011\<close> [st_111,  st_011,  st_010,  st_011,  error_3],
     \<comment> \<open>st_100\<close> [error_3, st_001,  error_3, st_001,  error_3],
     \<comment> \<open>st_101\<close> [error_3, st_011,  st_100,  st_011,  error_3],
     \<comment> \<open>st_110\<close> [error_3, st_011,  error_3, st_011,  error_3],
     \<comment> \<open>st_111\<close> [error_3, st_111,  st_110,  st_111,  error_3],
     \<comment> \<open>error\<close>  [error_3, error_3, error_3, error_3, error_3],
     \<comment> \<open>done\<close>   [error_3, error_3, error_3, error_3, error_3] ]"

definition exit_table_3 :: "PortAction list list" where
  "exit_table_3 =
   [ \<comment> \<open>st_000\<close> [none, none,        none, sink_wait, none],
     \<comment> \<open>st_001\<close> [none, none,        none, none,      none],
     \<comment> \<open>st_010\<close> [none, source_move, none, sink_move, none],
     \<comment> \<open>st_011\<close> [none, none,        none, none,      none],
     \<comment> \<open>st_100\<close> [none, source_move, none, sink_move, none],
     \<comment> \<open>st_101\<close> [none, source_move, none, sink_move, none],
     \<comment> \<open>st_110\<close> [none, source_move, none, sink_move, none],
     \<comment> \<open>st_111\<close> [none, source_wait, none, none,      none],
     \<comment> \<open>error\<close>  [none, none,        none, none,      none],
     \<comment> \<open>done\<close>   [none, none,        none, none,      none] ]"

definition entry_table_3 :: "PortAction list list" where
  "entry_table_3 =
   [ \<comment> \<open>st_000\<close> [none,        none,        notify_source, none,      none],
     \<comment> \<open>st_001\<close> [none,        none,        none,          none,      none],
     \<comment> \<open>st_010\<close> [none,        source_move, notify_source, sink_move, none],
     \<comment> \<open>st_011\<close> [none,        none,        none,          none,      none],
     \<comment> \<open>st_100\<close> [notify_sink, source_move, notify_source, sink_move, none],
     \<comment> \<open>st_101\<close> [notify_sink, source_move, none,          sink_move, none],
     \<comment> \<open>st_110\<close> [notify_sink, source_move, notify_source, sink_move, none],
     \<comment> \<open>st_111\<close> [notify_sink, none,        none,          none,      none],
     \<comment> \<open>error\<close>  [none,        none,        none,          none,      none],
     \<comment> \<open>done\<close>   [none,        none,        none,          none,      none] ]"

subsection \<open>The template parameter \<^verbatim>\<open>enumerator\<close>\<close>

text \<open>
  \<^verbatim>\<open>PortFiniteStateMachine<Policy, enumerator>\<close> is instantiated at \<^verbatim>\<open>two_stage\<close> and at
  \<^verbatim>\<open>three_stage\<close>. What the driver takes from the instantiation is collected in a record:
  the ordinal of a state, its \<^verbatim>\<open>str\<close>, the tables selected by
  \<^verbatim>\<open>num_states<enumerator>\<close>, the member \<^verbatim>\<open>error\<close>, the state of ordinal 0 the constructor
  stores, and the branch of \<^verbatim>\<open>if constexpr\<close> taken after an entry-phase move
  (lines 659-675 and 692-708).
\<close>

record 's enumerator =
  to_index_state :: "'s \<Rightarrow> nat"
  str_state :: "'s \<Rightarrow> string option"
  transition_table :: "'s list list"
  exit_table :: "PortAction list list"
  entry_table :: "PortAction list list"
  error_state :: 's
  state_zero :: 's
  post_move :: "'s \<Rightarrow> 's"

text \<open>Two-stage: \<^verbatim>\<open>state_ = st_01\<close>, whatever the state was.\<close>

definition post_move_two :: "two_port_type \<Rightarrow> two_port_type" where
  "post_move_two s = st_01"

text \<open>Three-stage: the \<^verbatim>\<open>switch (state_)\<close> with its two fall-through pairs.\<close>

fun post_move_three :: "three_port_type \<Rightarrow> three_port_type" where
  "post_move_three st_010 = st_001"
| "post_move_three st_100 = st_001"
| "post_move_three st_110 = st_011"
| "post_move_three st_101 = st_011"
| "post_move_three s = s"

definition two_stage :: "two_port_type enumerator" where
  "two_stage =
     \<lparr> to_index_state = to_index_two, str_state = str_two,
       transition_table = transition_table_2, exit_table = exit_table_2,
       entry_table = entry_table_2, error_state = error_2, state_zero = st_00,
       post_move = post_move_two \<rparr>"

definition three_stage :: "three_port_type enumerator" where
  "three_stage =
     \<lparr> to_index_state = to_index_three, str_state = str_three,
       transition_table = transition_table_3, exit_table = exit_table_3,
       entry_table = entry_table_3, error_state = error_3, state_zero = st_000,
       post_move = post_move_three \<rparr>"

text \<open>
  The three lookups of the driver,
  \<^verbatim>\<open>table<port_state, num_states<enumerator>>[to_index(state)][to_index(event)]\<close>.
\<close>

definition next_of :: "'s enumerator \<Rightarrow> 's \<Rightarrow> PortEvent \<Rightarrow> 's" where
  "next_of E s ev = transition_table E ! to_index_state E s ! to_index_event ev"

definition exit_of :: "'s enumerator \<Rightarrow> 's \<Rightarrow> PortEvent \<Rightarrow> PortAction" where
  "exit_of E s ev = exit_table E ! to_index_state E s ! to_index_event ev"

definition entry_of :: "'s enumerator \<Rightarrow> 's \<Rightarrow> PortEvent \<Rightarrow> PortAction" where
  "entry_of E s ev = entry_table E ! to_index_state E s ! to_index_event ev"

subsection \<open>The tables as the specification words them\<close>

text \<open>
  Section 4.1 of the specification, written down independently of the arrays above: the
  next-state tables row by row, and the action tables as "all \<open>none\<close> except" lists.
\<close>

fun spec_next_2 :: "two_port_type \<Rightarrow> PortEvent \<Rightarrow> two_port_type" where
  "spec_next_2 st_00 source_fill = st_10"
| "spec_next_2 st_00 source_push = st_00"
| "spec_next_2 st_00 sink_drain = error_2"
| "spec_next_2 st_00 sink_pull = st_00"
| "spec_next_2 st_01 source_fill = st_11"
| "spec_next_2 st_01 source_push = st_01"
| "spec_next_2 st_01 sink_drain = st_00"
| "spec_next_2 st_01 sink_pull = st_01"
| "spec_next_2 st_10 source_fill = error_2"
| "spec_next_2 st_10 source_push = st_01"
| "spec_next_2 st_10 sink_drain = error_2"
| "spec_next_2 st_10 sink_pull = st_01"
| "spec_next_2 st_11 source_fill = error_2"
| "spec_next_2 st_11 source_push = st_11"
| "spec_next_2 st_11 sink_drain = st_10"
| "spec_next_2 st_11 sink_pull = st_11"
| "spec_next_2 _ _ = error_2"

fun spec_next_3 :: "three_port_type \<Rightarrow> PortEvent \<Rightarrow> three_port_type" where
  "spec_next_3 st_000 source_fill = st_100"
| "spec_next_3 st_000 source_push = st_000"
| "spec_next_3 st_000 sink_drain = error_3"
| "spec_next_3 st_000 sink_pull = st_000"
| "spec_next_3 st_001 source_fill = st_101"
| "spec_next_3 st_001 source_push = st_001"
| "spec_next_3 st_001 sink_drain = st_000"
| "spec_next_3 st_001 sink_pull = st_001"
| "spec_next_3 st_010 source_fill = st_110"
| "spec_next_3 st_010 source_push = st_001"
| "spec_next_3 st_010 sink_drain = error_3"
| "spec_next_3 st_010 sink_pull = st_001"
| "spec_next_3 st_011 source_fill = st_111"
| "spec_next_3 st_011 source_push = st_011"
| "spec_next_3 st_011 sink_drain = st_010"
| "spec_next_3 st_011 sink_pull = st_011"
| "spec_next_3 st_100 source_fill = error_3"
| "spec_next_3 st_100 source_push = st_001"
| "spec_next_3 st_100 sink_drain = error_3"
| "spec_next_3 st_100 sink_pull = st_001"
| "spec_next_3 st_101 source_fill = error_3"
| "spec_next_3 st_101 source_push = st_011"
| "spec_next_3 st_101 sink_drain = st_100"
| "spec_next_3 st_101 sink_pull = st_011"
| "spec_next_3 st_110 source_fill = error_3"
| "spec_next_3 st_110 source_push = st_011"
| "spec_next_3 st_110 sink_drain = error_3"
| "spec_next_3 st_110 sink_pull = st_011"
| "spec_next_3 st_111 source_fill = error_3"
| "spec_next_3 st_111 source_push = st_111"
| "spec_next_3 st_111 sink_drain = st_110"
| "spec_next_3 st_111 sink_pull = st_111"
| "spec_next_3 _ _ = error_3"

definition spec_exit_2 :: "two_port_type \<Rightarrow> PortEvent \<Rightarrow> PortAction" where
  "spec_exit_2 s ev =
     (if (s, ev) = (st_00, sink_pull) then sink_wait
      else if (s, ev) = (st_10, source_push) then source_move
      else if (s, ev) = (st_10, sink_pull) then sink_move
      else if (s, ev) = (st_11, source_push) then source_wait
      else none)"

definition spec_exit_3 :: "three_port_type \<Rightarrow> PortEvent \<Rightarrow> PortAction" where
  "spec_exit_3 s ev =
     (if ev = source_push \<and> s \<in> set [st_010, st_100, st_101, st_110] then source_move
      else if ev = source_push \<and> s = st_111 then source_wait
      else if ev = sink_pull \<and> s \<in> set [st_010, st_100, st_101, st_110] then sink_move
      else if ev = sink_pull \<and> s = st_000 then sink_wait
      else none)"

definition spec_entry_2 :: "two_port_type \<Rightarrow> PortEvent \<Rightarrow> PortAction" where
  "spec_entry_2 s ev =
     (if (s, ev) = (st_00, sink_drain) then notify_source
      else if (s, ev) = (st_10, source_fill) then notify_sink
      else if (s, ev) = (st_10, source_push) then source_move
      else if (s, ev) = (st_10, sink_drain) then notify_source
      else if (s, ev) = (st_10, sink_pull) then sink_move
      else if (s, ev) = (st_11, source_fill) then notify_sink
      else none)"

definition spec_entry_3 :: "three_port_type \<Rightarrow> PortEvent \<Rightarrow> PortAction" where
  "spec_entry_3 s ev =
     (if ev = sink_drain \<and> s \<in> set [st_000, st_010, st_100, st_110] then notify_source
      else if ev = source_fill \<and> s \<in> set [st_100, st_101, st_110, st_111] then notify_sink
      else if ev = source_push \<and> s \<in> set [st_010, st_100, st_101, st_110] then source_move
      else if ev = sink_pull \<and> s \<in> set [st_010, st_100, st_101, st_110] then sink_move
      else none)"

subsection \<open>The state machine object\<close>

text \<open>
  The members \<^verbatim>\<open>state_\<close>, \<^verbatim>\<open>next_state_\<close> and \<^verbatim>\<open>debug_\<close> are named \<open>state_m\<close>,
  \<open>next_state_m\<close> and \<open>debug_m\<close>. The record holds the fields of
  \<^verbatim>\<open>PortFiniteStateMachine\<close> together with the process-wide \<^verbatim>\<open>event_counter\<close> (a
  \<^verbatim>\<open>std::atomic<int>\<close>, which wraps) and what has been written to \<^verbatim>\<open>std::cout\<close>. The policy derives from the state machine, so the policy's own members
  are the extension of the record. The mutex is not modelled: one call of \<^verbatim>\<open>event\<close> is
  followed from entry to exit, and what other threads do while a callback waits is part
  of what that callback returns.
\<close>

datatype token = Str string | Num int | Endl

record 's PortFiniteStateMachine =
  state_m :: 's
  next_state_m :: 's
  debug_m :: bool
  event_counter :: "32 word"
  cout :: "token list"

text \<open>
  The default constructor stores the state of ordinal 0 and leaves \<^verbatim>\<open>next_state_\<close>
  uninitialised: its value \<open>nx\<close> is a parameter, as are the counter and the output so far.
\<close>

definition construct ::
  "'s enumerator \<Rightarrow> 's \<Rightarrow> 32 word \<Rightarrow> token list \<Rightarrow> 's PortFiniteStateMachine" where
  "construct E nx c out =
     \<lparr> state_m = state_zero E, next_state_m = nx, debug_m = False, event_counter = c, cout = out \<rparr>"

definition state :: "('s, 'z) PortFiniteStateMachine_scheme \<Rightarrow> 's" where
  "state m = state_m m"

definition next_state :: "('s, 'z) PortFiniteStateMachine_scheme \<Rightarrow> 's" where
  "next_state m = next_state_m m"

definition set_state ::
  "'s \<Rightarrow> ('s, 'z) PortFiniteStateMachine_scheme \<Rightarrow> ('s, 'z) PortFiniteStateMachine_scheme" where
  "set_state s m = m\<lparr>state_m := s\<rparr>"

definition set_next_state ::
  "'s \<Rightarrow> ('s, 'z) PortFiniteStateMachine_scheme \<Rightarrow> ('s, 'z) PortFiniteStateMachine_scheme" where
  "set_next_state s m = m\<lparr>next_state_m := s\<rparr>"

definition enable_debug ::
  "('s, 'z) PortFiniteStateMachine_scheme \<Rightarrow> ('s, 'z) PortFiniteStateMachine_scheme" where
  "enable_debug m = m\<lparr>debug_m := True\<rparr>"

definition disable_debug ::
  "('s, 'z) PortFiniteStateMachine_scheme \<Rightarrow> ('s, 'z) PortFiniteStateMachine_scheme" where
  "disable_debug m = m\<lparr>debug_m := False\<rparr>"

definition debug_enabled :: "('s, 'z) PortFiniteStateMachine_scheme \<Rightarrow> bool" where
  "debug_enabled m = debug_m m"

text \<open>
  The seven callbacks \<^verbatim>\<open>static_cast<Policy*>(this)->...(lock, event_counter)\<close>. A callback
  is a member function of the derived object: it may change any field (the comment at
  line 612 expects \<^verbatim>\<open>next_state_\<close> to change in a wait or a move). Callbacks are taken
  to return. \<^verbatim>\<open>notify_source\<close> and \<^verbatim>\<open>notify_sink\<close> carry a prefix, the action
  alphabet has members of the same name.
\<close>

record ('s, 'z) Policy =
  on_ac_return ::
    "('s, 'z) PortFiniteStateMachine_scheme \<Rightarrow> ('s, 'z) PortFiniteStateMachine_scheme"
  on_source_move ::
    "('s, 'z) PortFiniteStateMachine_scheme \<Rightarrow> ('s, 'z) PortFiniteStateMachine_scheme"
  on_sink_move ::
    "('s, 'z) PortFiniteStateMachine_scheme \<Rightarrow> ('s, 'z) PortFiniteStateMachine_scheme"
  on_source_wait ::
    "('s, 'z) PortFiniteStateMachine_scheme \<Rightarrow> ('s, 'z) PortFiniteStateMachine_scheme"
  on_sink_wait ::
    "('s, 'z) PortFiniteStateMachine_scheme \<Rightarrow> ('s, 'z) PortFiniteStateMachine_scheme"
  policy_notify_source ::
    "('s, 'z) PortFiniteStateMachine_scheme \<Rightarrow> ('s, 'z) PortFiniteStateMachine_scheme"
  policy_notify_sink ::
    "('s, 'z) PortFiniteStateMachine_scheme \<Rightarrow> ('s, 'z) PortFiniteStateMachine_scheme"

text \<open>The pass-through policy: every callback is a no-op.\<close>

definition pass_through :: "('s, 'z) Policy" where
  "pass_through =
     \<lparr> on_ac_return = (\<lambda>m. m), on_source_move = (\<lambda>m. m), on_sink_move = (\<lambda>m. m),
       on_source_wait = (\<lambda>m. m), on_sink_wait = (\<lambda>m. m),
       policy_notify_source = (\<lambda>m. m), policy_notify_sink = (\<lambda>m. m) \<rparr>"

subsection \<open>Outcomes of the driver\<close>

text \<open>
  A call of \<^verbatim>\<open>event\<close> returns, throws \<^verbatim>\<open>std::logic_error\<close> with a message, or reads a
  vector out of range (undefined behaviour, after which nothing is known of the object).
  The out-of-range read is \<open>out_of_range\<close> where a trace statement does it and
  \<open>out_of_range_in_throw\<close> where the operand of the \<^verbatim>\<open>throw\<close> of a \<^verbatim>\<open>default:\<close> branch
  does it, so that the outcome tells whether a \<^verbatim>\<open>default:\<close> branch was entered.
\<close>

datatype fault = logic_error string | out_of_range | out_of_range_in_throw

datatype ('r, 'c) flow = Return 'r | Continue 'c

definition and_then :: "fault + 'a \<Rightarrow> ('a \<Rightarrow> fault + 'b) \<Rightarrow> fault + 'b" where
  "and_then r f = (case r of Inl x \<Rightarrow> Inl x | Inr a \<Rightarrow> f a)"

subsection \<open>Diagnostic output\<close>

text \<open>
  The text every trace line shares:
  \<^verbatim>\<open>label + msg + " " + str(event) + ": " + str(s) + " (" + str(exit_action) + ") -> (" +
  str(entry_action) << ") " + str(n) << std::endl\<close>.
\<close>

definition describe ::
  "'s enumerator \<Rightarrow> string \<Rightarrow> string \<Rightarrow> PortEvent \<Rightarrow> 's \<Rightarrow> PortAction \<Rightarrow> PortAction \<Rightarrow> 's
     \<Rightarrow> token list option" where
  "describe E label msg ev s exit_action entry_action n =
     Option.bind (str_event ev) (\<lambda>ev'.
     Option.bind (str_state E s) (\<lambda>s'.
     Option.bind (str_action exit_action) (\<lambda>x'.
     Option.bind (str_action entry_action) (\<lambda>a'.
     Option.bind (str_state E n) (\<lambda>n'.
       Some [Str (label @ msg @ '' '' @ ev' @ '': '' @ s' @ '' ('' @ x' @ '') -> ('' @ a'),
             Str ('') '' @ n'), Endl])))))"

text \<open>
  One output statement \<^verbatim>\<open>std::cout << event_counter++ << ...\<close>, with a leading
  \<^verbatim>\<open>"\n"\<close> when \<open>nl\<close> is set: the counter is printed and incremented, the tokens follow.
  \<open>emit_if\<close> is the statement under a guard.
\<close>

definition emit ::
  "bool \<Rightarrow> token list \<Rightarrow> ('s, 'z) PortFiniteStateMachine_scheme
     \<Rightarrow> ('s, 'z) PortFiniteStateMachine_scheme" where
  "emit nl ts m =
     m\<lparr> event_counter := event_counter m + 1,
        cout := cout m @ (if nl then [Str [CHR 0x0A]] else [])
                  @ Num (sint (event_counter m)) # ts \<rparr>"

definition emit_if ::
  "bool \<Rightarrow> bool \<Rightarrow> token list \<Rightarrow> ('s, 'z) PortFiniteStateMachine_scheme
     \<Rightarrow> ('s, 'z) PortFiniteStateMachine_scheme" where
  "emit_if c nl ts m = (if c then emit nl ts m else m)"

text \<open>
  A guarded trace line, \<^verbatim>\<open>if (c) { std::cout << ... }\<close>. When the guard holds the text is
  built before anything is written, and building it reads the string vectors: where one
  of the reads is out of range the statement is the fault.
\<close>

definition print ::
  "bool \<Rightarrow> bool \<Rightarrow> token list option \<Rightarrow> ('s, 'z) PortFiniteStateMachine_scheme
     \<Rightarrow> fault + ('s, 'z) PortFiniteStateMachine_scheme" where
  "print c nl body m =
     (if c then
        (case body of
           None \<Rightarrow> Inl out_of_range
         | Some ts \<Rightarrow> Inr (emit nl ts m))
      else Inr m)"

text \<open>
  \<^verbatim>\<open>if (msg != "") std::cout << event_counter++ << "      " + msg + what << std::endl\<close>.
\<close>

definition announce ::
  "string \<Rightarrow> string \<Rightarrow> ('s, 'z) PortFiniteStateMachine_scheme
     \<Rightarrow> ('s, 'z) PortFiniteStateMachine_scheme" where
  "announce msg what m = emit_if (msg \<noteq> []) False [Str (''      '' @ msg @ what), Endl] m"

text \<open>
  The \<^verbatim>\<open>default:\<close> branch of both switches:
  \<^verbatim>\<open>throw std::logic_error(label + str(action) + ": " + str(state_) + " -> " +
  str(next_state_))\<close>. The message is built first, with three reads of string vectors.
\<close>

definition unexpected ::
  "'s enumerator \<Rightarrow> string \<Rightarrow> PortAction \<Rightarrow> ('s, 'z) PortFiniteStateMachine_scheme \<Rightarrow> fault" where
  "unexpected E label ac m =
     (case Option.bind (str_action ac) (\<lambda>a'.
           Option.bind (str_state E (state_m m)) (\<lambda>s'.
           Option.bind (str_state E (next_state_m m)) (\<lambda>n'.
             Some (label @ a' @ '': '' @ s' @ '' -> '' @ n')))) of
        None \<Rightarrow> out_of_range_in_throw
      | Some text \<Rightarrow> logic_error text)"

subsection \<open>The driver\<close>

text \<open>The \<^verbatim>\<open>switch (exit_action)\<close> of lines 538-600.\<close>

definition exit_phase ::
  "'s enumerator \<Rightarrow> ('s, 'z) Policy \<Rightarrow> PortAction \<Rightarrow> string
     \<Rightarrow> ('s, 'z) PortFiniteStateMachine_scheme
     \<Rightarrow> fault + (('s, 'z) PortFiniteStateMachine_scheme,
                  ('s, 'z) PortFiniteStateMachine_scheme) flow" where
  "exit_phase E P exit_action msg m =
     (case exit_action of
        none \<Rightarrow> Inr (Continue m)
      | ac_return \<Rightarrow>
          Inr (Return (on_ac_return P (announce msg '' exit about to ac_return'' m)))
      | source_move \<Rightarrow>
          Inr (Continue (on_source_move P (announce msg '' exit about to source_move'' m)))
      | sink_move \<Rightarrow>
          Inr (Continue (on_sink_move P (announce msg '' exit about to sink_move'' m)))
      | source_wait \<Rightarrow>
          Inr (Continue (on_source_wait P (announce msg '' exit about to source_wait'' m)))
      | sink_wait \<Rightarrow>
          Inr (Continue (on_sink_wait P (announce msg '' exit about to sink_wait'' m)))
      | notify_source \<Rightarrow>
          Inr (Continue (policy_notify_source P
                 (announce msg '' exit about to notify source'' m)))
      | notify_sink \<Rightarrow>
          Inr (Continue (policy_notify_sink P (announce msg '' exit about to notify sink'' m)))
      | error \<Rightarrow> Inl (unexpected E ''Unexpected exit action: '' exit_action m))"

text \<open>
  The \<^verbatim>\<open>switch (entry_action)\<close> of lines 635-752. After a move callback the state is
  renormalised by the branch of \<^verbatim>\<open>if constexpr\<close> of the instantiation.
\<close>

definition entry_phase ::
  "'s enumerator \<Rightarrow> ('s, 'z) Policy \<Rightarrow> PortAction \<Rightarrow> string
     \<Rightarrow> ('s, 'z) PortFiniteStateMachine_scheme
     \<Rightarrow> fault + (('s, 'z) PortFiniteStateMachine_scheme,
                  ('s, 'z) PortFiniteStateMachine_scheme) flow" where
  "entry_phase E P entry_action msg m =
     (case entry_action of
        none \<Rightarrow> Inr (Continue m)
      | ac_return \<Rightarrow>
          Inr (Return (on_ac_return P (announce msg '' entry about to ac_return'' m)))
      | source_move \<Rightarrow>
          (let m' = on_source_move P (announce msg '' entry about to source_move'' m)
           in Inr (Continue (m'\<lparr>state_m := post_move E (state_m m')\<rparr>)))
      | sink_move \<Rightarrow>
          (let m' = on_sink_move P (announce msg '' entry about to sink_move'' m)
           in Inr (Continue (m'\<lparr>state_m := post_move E (state_m m')\<rparr>)))
      | source_wait \<Rightarrow>
          Inr (Continue (on_source_wait P (announce msg '' entry about to source_wait'' m)))
      | sink_wait \<Rightarrow>
          Inr (Continue (on_sink_wait P (announce msg '' entry about to sink_wait'' m)))
      | notify_source \<Rightarrow>
          Inr (Continue (policy_notify_source P
                 (announce msg '' entry about to notify source'' m)))
      | notify_sink \<Rightarrow>
          Inr (Continue (policy_notify_sink P
                 (announce msg '' entry about to notify sink'' m)))
      | error \<Rightarrow> Inl (unexpected E ''Unexpected entry action: '' entry_action m))"

text \<open>
  \<^verbatim>\<open>event\<close>, lines 494-609: the three lookups, the start trace, the shutdown return, the
  error diagnostic, the exit phase and its trace. It hands \<^verbatim>\<open>old_state\<close> and
  \<^verbatim>\<open>exit_action\<close> to the second half.
\<close>

definition event_exit_part ::
  "'s enumerator \<Rightarrow> ('s, 'z) Policy \<Rightarrow> PortEvent \<Rightarrow> string
     \<Rightarrow> ('s, 'z) PortFiniteStateMachine_scheme
     \<Rightarrow> fault + (('s, 'z) PortFiniteStateMachine_scheme,
                  's \<times> PortAction \<times> ('s, 'z) PortFiniteStateMachine_scheme) flow" where
  "event_exit_part E P ev msg m0 =
     (let m1 = m0\<lparr>next_state_m := next_of E (state_m m0) ev\<rparr>;
          exit_action = exit_of E (state_m m1) ev;
          entry_action = entry_of E (next_state_m m1) ev;
          old_state = state_m m1
      in
      and_then
        (print (msg \<noteq> [] \<or> debug_m m1) True
           (describe E '' On event start: '' msg ev (state_m m1) exit_action entry_action
              (next_state_m m1)) m1) (\<lambda>m2.
      if ev = shutdown then Inr (Return m2)
      else
      and_then
        (print (next_state_m m2 = error_state E) True
           (describe E '' ERROR On event start: '' msg ev (state_m m2) exit_action entry_action
              (next_state_m m2)) m2) (\<lambda>m3.
      and_then
        (print (msg \<noteq> [] \<or> debug_m m3) False
           (describe E '' Pre exit event: '' msg ev (state_m m3) exit_action entry_action
              (next_state_m m3)) m3) (\<lambda>m4.
      and_then (exit_phase E P exit_action msg m4) (\<lambda>fl.
      case fl of
        Return m5 \<Rightarrow> Inr (Return m5)
      | Continue m5 \<Rightarrow>
          and_then
            (print ((msg \<noteq> [] \<or> debug_m m5) \<and> msg \<noteq> []) False
               (describe E '' Post exit: '' msg ev (state_m m5) exit_action entry_action
                  (next_state_m m5)) m5) (\<lambda>m6.
          Inr (Continue (old_state, exit_action, m6))))))))"

text \<open>
  \<^verbatim>\<open>event\<close>, lines 611-760: the commit \<^verbatim>\<open>state_ = next_state_\<close>, the entry action read
  again, the entry phase and the traces around it.
\<close>

definition event_entry_part ::
  "'s enumerator \<Rightarrow> ('s, 'z) Policy \<Rightarrow> PortEvent \<Rightarrow> string \<Rightarrow> 's \<Rightarrow> PortAction
     \<Rightarrow> ('s, 'z) PortFiniteStateMachine_scheme
     \<Rightarrow> fault + ('s, 'z) PortFiniteStateMachine_scheme" where
  "event_entry_part E P ev msg old_state exit_action m6 =
     (let m7 = m6\<lparr>state_m := next_state_m m6\<rparr>;
          entry_action = entry_of E (next_state_m m7) ev
      in
      and_then
        (print (msg \<noteq> [] \<or> debug_m m7) False
           (describe E '' Pre entry event: '' msg ev old_state exit_action entry_action
              (state_m m7)) m7) (\<lambda>m8.
      and_then (entry_phase E P entry_action msg m8) (\<lambda>fl.
      case fl of
        Return m9 \<Rightarrow> Inr m9
      | Continue m9 \<Rightarrow>
          print (msg \<noteq> [] \<or> debug_m m9) False
            (describe E '' Post entry event: '' msg ev (state_m m9) exit_action entry_action
               (next_state_m m9)) m9)))"

definition event ::
  "'s enumerator \<Rightarrow> ('s, 'z) Policy \<Rightarrow> PortEvent \<Rightarrow> string
     \<Rightarrow> ('s, 'z) PortFiniteStateMachine_scheme
     \<Rightarrow> fault + ('s, 'z) PortFiniteStateMachine_scheme" where
  "event E P ev msg m =
     and_then (event_exit_part E P ev msg m) (\<lambda>fl.
       case fl of
         Return m' \<Rightarrow> Inr m'
       | Continue (old_state, exit_action, m') \<Rightarrow>
           event_entry_part E P ev msg old_state exit_action m')"

definition do_fill ::
  "'s enumerator \<Rightarrow> ('s, 'z) Policy \<Rightarrow> string \<Rightarrow> ('s, 'z) PortFiniteStateMachine_scheme
     \<Rightarrow> fault + ('s, 'z) PortFiniteStateMachine_scheme" where
  "do_fill E P msg m = event E P source_fill msg m"

definition do_push ::
  "'s enumerator \<Rightarrow> ('s, 'z) Policy \<Rightarrow> string \<Rightarrow> ('s, 'z) PortFiniteStateMachine_scheme
     \<Rightarrow> fault + ('s, 'z) PortFiniteStateMachine_scheme" where
  "do_push E P msg m = event E P source_push msg m"

definition do_pull ::
  "'s enumerator \<Rightarrow> ('s, 'z) Policy \<Rightarrow> string \<Rightarrow> ('s, 'z) PortFiniteStateMachine_scheme
     \<Rightarrow> fault + ('s, 'z) PortFiniteStateMachine_scheme" where
  "do_pull E P msg m = event E P sink_pull msg m"

definition do_drain ::
  "'s enumerator \<Rightarrow> ('s, 'z) Policy \<Rightarrow> string \<Rightarrow> ('s, 'z) PortFiniteStateMachine_scheme
     \<Rightarrow> fault + ('s, 'z) PortFiniteStateMachine_scheme" where
  "do_drain E P msg m = event E P sink_drain msg m"


subsection \<open>A policy that writes the state\<close>

text \<open>
  A three-stage policy whose \<^verbatim>\<open>on_sink_wait\<close> returns with \<^verbatim>\<open>set_next_state(st_100)\<close> done
  (the source has filled while the sink waited) and whose \<^verbatim>\<open>on_sink_move\<close> calls
  \<^verbatim>\<open>set_state(st_000)\<close>; the other callbacks are no-ops.
\<close>

definition rewriting_policy :: "(three_port_type, 'z) Policy" where
  "rewriting_policy =
     pass_through \<lparr> on_sink_wait := set_next_state st_100, on_sink_move := set_state st_000 \<rparr>"

section \<open>The tables\<close>

text \<open>Every lookup of the driver is inside its array.\<close>

lemma table_dims:
  "length transition_table_2 = n_states_two" "\<forall>r \<in> set transition_table_2. length r = n_events"
  "length exit_table_2 = n_states_two" "\<forall>r \<in> set exit_table_2. length r = n_events"
  "length entry_table_2 = n_states_two" "\<forall>r \<in> set entry_table_2. length r = n_events"
  "length transition_table_3 = n_states_three" "\<forall>r \<in> set transition_table_3. length r = n_events"
  "length exit_table_3 = n_states_three" "\<forall>r \<in> set exit_table_3. length r = n_events"
  "length entry_table_3 = n_states_three" "\<forall>r \<in> set entry_table_3. length r = n_events"
  by (simp_all add: transition_table_2_def exit_table_2_def entry_table_2_def
      transition_table_3_def exit_table_3_def entry_table_3_def n_events_def
      n_states_two_def n_states_three_def)

lemma indices_in_range:
  "to_index_two s < n_states_two" "to_index_three t < n_states_three"
  "to_index_event ev < n_events" "to_index_action ac < n_actions"
proof -
  show "to_index_two s < n_states_two"
    by (cases s; simp add: n_states_two_def)
  show "to_index_three t < n_states_three"
    by (cases t; simp add: n_states_three_def)
  show "to_index_event ev < n_events"
    by (cases ev; simp add: n_events_def)
  show "to_index_action ac < n_actions"
    by (cases ac; simp add: n_actions_def)
qed

lemma next_of_two_stage: "next_of two_stage s ev = spec_next_2 s ev"
  by (cases s; cases ev; simp add: next_of_def two_stage_def transition_table_2_def)

lemma next_of_three_stage: "next_of three_stage s ev = spec_next_3 s ev"
  by (cases s; cases ev; simp add: next_of_def three_stage_def transition_table_3_def)

lemma exit_of_two_stage: "exit_of two_stage s ev = spec_exit_2 s ev"
  by (cases s; cases ev; simp add: exit_of_def two_stage_def exit_table_2_def spec_exit_2_def)

lemma exit_of_three_stage: "exit_of three_stage s ev = spec_exit_3 s ev"
  by (cases s; cases ev;
      simp add: exit_of_def three_stage_def exit_table_3_def spec_exit_3_def)

lemma entry_of_two_stage: "entry_of two_stage s ev = spec_entry_2 s ev"
  by (cases s; cases ev; simp add: entry_of_def two_stage_def entry_table_2_def spec_entry_2_def)

lemma entry_of_three_stage: "entry_of three_stage s ev = spec_entry_3 s ev"
  by (cases s; cases ev;
      simp add: entry_of_def three_stage_def entry_table_3_def spec_entry_3_def)

text \<open>
  Claim C1. For both stage counts the next-state table of the code is the table of
  section 4.1 of the specification, cell by cell: every lookup
  \<open>next_of E s ev\<close> is the tabulated successor. In particular two-stage \<open>st_00\<close> goes to
  \<open>st_10\<close> on \<open>source_fill\<close> and to \<open>error\<close> on \<open>sink_drain\<close>, three-stage \<open>st_101\<close> goes to
  \<open>st_100\<close> on \<open>sink_drain\<close>, and from \<open>error\<close> and \<open>done\<close> every event leads to \<open>error\<close>
  (property P2).
\<close>

theorem transition_tables_as_specified:
  "(\<forall>s ev. next_of two_stage s ev = spec_next_2 s ev) \<and>
   (\<forall>s ev. next_of three_stage s ev = spec_next_3 s ev) \<and>
   next_of two_stage st_00 source_fill = st_10 \<and>
   next_of two_stage st_00 sink_drain = error_2 \<and>
   next_of three_stage st_101 sink_drain = st_100 \<and>
   (\<forall>ev. next_of two_stage error_2 ev = error_2 \<and> next_of two_stage done_2 ev = error_2 \<and>
         next_of three_stage error_3 ev = error_3 \<and> next_of three_stage done_3 ev = error_3)"
  by (simp add: next_of_two_stage next_of_three_stage)

text \<open>
  Claim C2. For both stage counts the exit-action table of the code is \<open>none\<close> in every
  cell except the entries the specification lists: two-stage \<open>sink_wait\<close> at
  (\<open>st_00\<close>, pull), \<open>source_move\<close> at (\<open>st_10\<close>, push), \<open>sink_move\<close> at (\<open>st_10\<close>, pull),
  \<open>source_wait\<close> at (\<open>st_11\<close>, push); three-stage \<open>source_move\<close> on push and \<open>sink_move\<close>
  on pull at \<open>st_010\<close>, \<open>st_100\<close>, \<open>st_101\<close>, \<open>st_110\<close>, \<open>source_wait\<close> on push at
  \<open>st_111\<close> and \<open>sink_wait\<close> on pull at \<open>st_000\<close>.
\<close>

theorem exit_tables_as_specified:
  "(\<forall>s ev. exit_of two_stage s ev = spec_exit_2 s ev) \<and>
   (\<forall>s ev. exit_of three_stage s ev = spec_exit_3 s ev)"
  by (simp add: exit_of_two_stage exit_of_three_stage)

text \<open>
  Claim C3. For both stage counts the entry-action table of the code is \<open>none\<close> in every
  cell except the entries the specification lists: two-stage \<open>notify_source\<close> at
  (\<open>st_00\<close>, drain) and (\<open>st_10\<close>, drain), \<open>notify_sink\<close> at (\<open>st_10\<close>, fill) and
  (\<open>st_11\<close>, fill), \<open>source_move\<close> at (\<open>st_10\<close>, push), \<open>sink_move\<close> at (\<open>st_10\<close>, pull);
  three-stage \<open>notify_source\<close> on drain at \<open>st_000\<close>, \<open>st_010\<close>, \<open>st_100\<close>, \<open>st_110\<close>,
  \<open>notify_sink\<close> on fill at \<open>st_100\<close>, \<open>st_101\<close>, \<open>st_110\<close>, \<open>st_111\<close>, \<open>source_move\<close> on
  push and \<open>sink_move\<close> on pull at \<open>st_010\<close>, \<open>st_100\<close>, \<open>st_101\<close>, \<open>st_110\<close>.
\<close>

theorem entry_tables_as_specified:
  "(\<forall>s ev. entry_of two_stage s ev = spec_entry_2 s ev) \<and>
   (\<forall>s ev. entry_of three_stage s ev = spec_entry_3 s ev)"
  by (simp add: entry_of_two_stage entry_of_three_stage)

section \<open>Lemmas on the driver\<close>

lemma str_event_Some: "str_event ev = Some (event_strings ! to_index_event ev)"
  by (cases ev; simp add: str_event_def at_def event_strings_def)

lemma str_action_Some: "str_action ac = Some (action_strings ! to_index_action ac)"
  by (cases ac; simp add: str_action_def at_def action_strings_def)

lemma str_two_Some: "str_state two_stage s = Some (port_state_strings_two_stage ! to_index_two s)"
  by (cases s; simp add: two_stage_def str_two_def at_def port_state_strings_two_stage_def)

lemma str_three_None: "str_state three_stage s = None"
  by (simp add: three_stage_def str_three_def at_def port_state_strings_primary_def)

lemma describe_two_stage:
  "describe two_stage label msg ev s xa ea n =
     Some [Str (label @ msg @ '' '' @ event_strings ! to_index_event ev @ '': '' @
                port_state_strings_two_stage ! to_index_two s @ '' ('' @
                action_strings ! to_index_action xa @ '') -> ('' @
                action_strings ! to_index_action ea),
           Str ('') '' @ port_state_strings_two_stage ! to_index_two n), Endl]"
  by (simp add: describe_def str_event_Some str_action_Some str_two_Some)

lemma describe_three_stage: "describe three_stage label msg ev s xa ea n = None"
  by (simp add: describe_def str_event_Some str_three_None)

lemma and_then_simps [simp]:
  "and_then (Inl x) f = Inl x" "and_then (Inr a) f = f a"
  by (simp_all add: and_then_def)

lemma and_then_if:
  "and_then (if b then r else s) f = (if b then and_then r f else and_then s f)"
  by simp

lemma emit_fields [simp]:
  "state_m (emit nl ts m) = state_m m"
  "next_state_m (emit nl ts m) = next_state_m m"
  "debug_m (emit nl ts m) = debug_m m"
  "PortFiniteStateMachine.more (emit nl ts m) = PortFiniteStateMachine.more m"
  by (simp_all add: emit_def)

lemma emit_if_fields [simp]:
  "state_m (emit_if c nl ts m) = state_m m"
  "next_state_m (emit_if c nl ts m) = next_state_m m"
  "debug_m (emit_if c nl ts m) = debug_m m"
  "PortFiniteStateMachine.more (emit_if c nl ts m) = PortFiniteStateMachine.more m"
  by (simp_all add: emit_if_def)

lemma emit_if_False [simp]: "emit_if False nl ts m = m"
  by (simp add: emit_if_def)

lemma announce_fields [simp]:
  "state_m (announce msg what m) = state_m m"
  "next_state_m (announce msg what m) = next_state_m m"
  "debug_m (announce msg what m) = debug_m m"
  "PortFiniteStateMachine.more (announce msg what m) = PortFiniteStateMachine.more m"
  by (simp_all add: announce_def)

lemma announce_Nil [simp]: "announce [] what m = m"
  by (simp add: announce_def)

lemma print_False [simp]: "print False nl body m = Inr m"
  by (simp add: print_def)

lemma print_two_stage:
  "print c nl (describe two_stage label msg ev s xa ea n) m =
     Inr (emit_if c nl (the (describe two_stage label msg ev s xa ea n)) m)"
  by (simp add: print_def emit_if_def describe_two_stage)

lemma print_three_stage:
  "print c nl (describe three_stage label msg ev s xa ea n) m =
     (if c then Inl out_of_range else Inr m)"
  by (simp add: print_def describe_three_stage)

lemma error_state_simps [simp]:
  "error_state two_stage = error_2" "error_state three_stage = error_3"
  by (simp_all add: two_stage_def three_stage_def)


lemma exit_phase_pass_through:
  "xa \<noteq> error \<Longrightarrow> xa \<noteq> ac_return \<Longrightarrow>
   exit_phase E pass_through xa msg m =
     Inr (Continue (emit_if (xa \<noteq> none \<and> msg \<noteq> []) False
        [Str (''      '' @ msg @
           (case xa of
              source_move \<Rightarrow> '' exit about to source_move''
            | sink_move \<Rightarrow> '' exit about to sink_move''
            | source_wait \<Rightarrow> '' exit about to source_wait''
            | sink_wait \<Rightarrow> '' exit about to sink_wait''
            | notify_source \<Rightarrow> '' exit about to notify source''
            | _ \<Rightarrow> '' exit about to notify sink'')), Endl] m))"
  by (cases xa; simp add: exit_phase_def pass_through_def announce_def)

lemma entry_phase_pass_through:
  "ea \<noteq> error \<Longrightarrow> ea \<noteq> ac_return \<Longrightarrow> ea \<noteq> source_move \<Longrightarrow> ea \<noteq> sink_move \<Longrightarrow>
   entry_phase E pass_through ea msg m =
     Inr (Continue (emit_if (ea \<noteq> none \<and> msg \<noteq> []) False
        [Str (''      '' @ msg @
           (case ea of
              source_wait \<Rightarrow> '' entry about to source_wait''
            | sink_wait \<Rightarrow> '' entry about to sink_wait''
            | notify_source \<Rightarrow> '' entry about to notify source''
            | _ \<Rightarrow> '' entry about to notify sink'')), Endl] m))"
  by (cases ea; simp add: entry_phase_def pass_through_def announce_def)

lemma exit_of_two_stage_handled:
  "exit_of two_stage s ev \<noteq> error" "exit_of two_stage s ev \<noteq> ac_return"
  by (simp_all add: exit_of_two_stage spec_exit_2_def)

lemma exit_of_three_stage_handled:
  "exit_of three_stage s ev \<noteq> error" "exit_of three_stage s ev \<noteq> ac_return"
  by (simp_all add: exit_of_three_stage spec_exit_3_def)

lemma entry_of_two_stage_handled:
  "entry_of two_stage s ev \<noteq> error" "entry_of two_stage s ev \<noteq> ac_return"
  by (simp_all add: entry_of_two_stage spec_entry_2_def)

lemma entry_of_three_stage_handled:
  "entry_of three_stage s ev \<noteq> error" "entry_of three_stage s ev \<noteq> ac_return"
  by (simp_all add: entry_of_three_stage spec_entry_3_def)

lemma entry_after_transition_two_stage:
  "entry_of two_stage (next_of two_stage s ev) ev \<noteq> source_move"
  "entry_of two_stage (next_of two_stage s ev) ev \<noteq> sink_move"
  by (cases s; cases ev; simp add: entry_of_two_stage next_of_two_stage spec_entry_2_def)+

lemma entry_after_transition_three_stage:
  "entry_of three_stage (next_of three_stage s ev) ev \<noteq> source_move"
  "entry_of three_stage (next_of three_stage s ev) ev \<noteq> sink_move"
  by (cases s; cases ev; simp add: entry_of_three_stage next_of_three_stage spec_entry_3_def)+

lemma exit_part_two_stage_pass_through:
  "\<exists>m6. event_exit_part two_stage pass_through ev msg m =
          Inr (if ev = shutdown then Return m6
               else Continue (state_m m, exit_of two_stage (state_m m) ev, m6)) \<and>
        state_m m6 = state_m m \<and>
        next_state_m m6 = next_of two_stage (state_m m) ev \<and>
        debug_m m6 = debug_m m \<and>
        PortFiniteStateMachine.more m6 = PortFiniteStateMachine.more m"
  by (simp add: event_exit_part_def Let_def print_two_stage exit_phase_pass_through
        exit_of_two_stage_handled)

lemma entry_part_two_stage_pass_through:
  "entry_of two_stage (next_state_m m) ev \<noteq> source_move \<Longrightarrow>
   entry_of two_stage (next_state_m m) ev \<noteq> sink_move \<Longrightarrow>
   \<exists>m'. event_entry_part two_stage pass_through ev msg old xa m = Inr m' \<and>
        state_m m' = next_state_m m \<and>
        next_state_m m' = next_state_m m \<and>
        debug_m m' = debug_m m \<and>
        PortFiniteStateMachine.more m' = PortFiniteStateMachine.more m"
  by (simp add: event_entry_part_def Let_def print_two_stage entry_phase_pass_through
        entry_of_two_stage_handled)

lemma event_two_stage_pass_through:
  "\<exists>m'. event two_stage pass_through ev msg m = Inr m' \<and>
        state_m m' = (if ev = shutdown then state_m m else next_of two_stage (state_m m) ev) \<and>
        next_state_m m' = next_of two_stage (state_m m) ev \<and>
        debug_m m' = debug_m m \<and>
        PortFiniteStateMachine.more m' = PortFiniteStateMachine.more m"
proof -
  obtain m6 where
    exit: "event_exit_part two_stage pass_through ev msg m =
             Inr (if ev = shutdown then Return m6
                  else Continue (state_m m, exit_of two_stage (state_m m) ev, m6))"
    and m6: "state_m m6 = state_m m" "next_state_m m6 = next_of two_stage (state_m m) ev"
      "debug_m m6 = debug_m m" "PortFiniteStateMachine.more m6 = PortFiniteStateMachine.more m"
    using exit_part_two_stage_pass_through [of ev msg m] by blast
  show ?thesis
  proof (cases "ev = shutdown")
    case True
    with exit m6 show ?thesis by (simp add: event_def)
  next
    case False
    have "entry_of two_stage (next_state_m m6) ev \<noteq> source_move"
      "entry_of two_stage (next_state_m m6) ev \<noteq> sink_move"
      by (simp_all add: m6 entry_after_transition_two_stage)
    then obtain m' where
      "event_entry_part two_stage pass_through ev msg (state_m m)
         (exit_of two_stage (state_m m) ev) m6 = Inr m'"
      "state_m m' = next_state_m m6" "next_state_m m' = next_state_m m6"
      "debug_m m' = debug_m m6"
      "PortFiniteStateMachine.more m' = PortFiniteStateMachine.more m6"
      using entry_part_two_stage_pass_through by blast
    with False exit m6 show ?thesis by (simp add: event_def)
  qed
qed

lemma event_three_stage_loud:
  "msg \<noteq> [] \<or> debug_m m \<Longrightarrow> event three_stage P ev msg m = Inl out_of_range"
  by (simp add: event_def event_exit_part_def Let_def print_three_stage)

lemma exit_part_three_stage_quiet:
  "\<not> debug_m m \<Longrightarrow>
   event_exit_part three_stage pass_through ev [] m =
     (if ev = shutdown
      then Inr (Return (m\<lparr>next_state_m := next_of three_stage (state_m m) ev\<rparr>))
      else if next_of three_stage (state_m m) ev = error_3 then Inl out_of_range
      else Inr (Continue (state_m m, exit_of three_stage (state_m m) ev,
                  m\<lparr>next_state_m := next_of three_stage (state_m m) ev\<rparr>)))"
  by (simp add: event_exit_part_def Let_def print_three_stage exit_phase_pass_through
        exit_of_three_stage_handled)

lemma entry_part_three_stage_quiet:
  "\<not> debug_m m \<Longrightarrow>
   entry_of three_stage (next_state_m m) ev \<noteq> source_move \<Longrightarrow>
   entry_of three_stage (next_state_m m) ev \<noteq> sink_move \<Longrightarrow>
   event_entry_part three_stage pass_through ev [] old xa m = Inr (m\<lparr>state_m := next_state_m m\<rparr>)"
  by (simp add: event_entry_part_def Let_def print_three_stage entry_phase_pass_through
        entry_of_three_stage_handled)

lemma event_three_stage_pass_through_quiet:
  "\<not> debug_m m \<Longrightarrow>
   event three_stage pass_through ev [] m =
     (if ev = shutdown then Inr (m\<lparr>next_state_m := next_of three_stage (state_m m) ev\<rparr>)
      else if next_of three_stage (state_m m) ev = error_3 then Inl out_of_range
      else Inr (m\<lparr>next_state_m := next_of three_stage (state_m m) ev,
                  state_m := next_of three_stage (state_m m) ev\<rparr>))"
  by (simp add: event_def exit_part_three_stage_quiet entry_part_three_stage_quiet
        entry_after_transition_three_stage)

lemma event_shutdown:
  "event E P shutdown msg m =
     print (msg \<noteq> [] \<or> debug_m m) True
       (describe E '' On event start: '' msg shutdown (state_m m) (exit_of E (state_m m) shutdown)
          (entry_of E (next_of E (state_m m) shutdown) shutdown)
          (next_of E (state_m m) shutdown))
       (m\<lparr>next_state_m := next_of E (state_m m) shutdown\<rparr>)"
  by (simp add: event_def event_exit_part_def Let_def print_def split: option.splits)

lemma next_of_shutdown [simp]:
  "next_of two_stage s shutdown = error_2" "next_of three_stage t shutdown = error_3"
  by (cases s; simp add: next_of_two_stage) (cases t; simp add: next_of_three_stage)











section \<open>Canonical scenario 1\<close>

text \<open>
  Claim C7. A freshly constructed two-stage machine with the pass-through policy, taken
  through \<open>do_fill\<close>, \<open>do_push\<close>, \<open>do_pull\<close>, \<open>do_drain\<close> (with any messages): every call
  returns, the states observed after the four calls are \<open>st_10\<close>, \<open>st_01\<close>, \<open>st_01\<close>,
  \<open>st_00\<close>, and none of them is \<open>error\<close> (property P3, scenario 1).
\<close>

theorem canonical_cycle_two_stage:
  "\<exists>m1 m2 m3 m4.
     do_fill two_stage pass_through msg1 (construct two_stage nx c out) = Inr m1 \<and>
     state m1 = st_10 \<and>
     do_push two_stage pass_through msg2 m1 = Inr m2 \<and> state m2 = st_01 \<and>
     do_pull two_stage pass_through msg3 m2 = Inr m3 \<and> state m3 = st_01 \<and>
     do_drain two_stage pass_through msg4 m3 = Inr m4 \<and> state m4 = st_00 \<and>
     error_2 \<notin> {state m1, state m2, state m3, state m4}"
proof -
  obtain m1 where m1: "event two_stage pass_through source_fill msg1 (construct two_stage nx c out) = Inr m1"
    "state_m m1 = next_of two_stage (state_m (construct two_stage nx c out)) source_fill"
    using event_two_stage_pass_through [of source_fill msg1 "construct two_stage nx c out"]
    by auto
  have s1: "state_m m1 = st_10"
    by (simp add: m1(2) construct_def two_stage_def [THEN arg_cong, of state_zero]
          next_of_two_stage)
  obtain m2 where m2: "event two_stage pass_through source_push msg2 m1 = Inr m2"
    "state_m m2 = next_of two_stage (state_m m1) source_push"
    using event_two_stage_pass_through [of source_push msg2 m1] by auto
  have s2: "state_m m2 = st_01"
    by (simp add: m2(2) s1 next_of_two_stage)
  obtain m3 where m3: "event two_stage pass_through sink_pull msg3 m2 = Inr m3"
    "state_m m3 = next_of two_stage (state_m m2) sink_pull"
    using event_two_stage_pass_through [of sink_pull msg3 m2] by auto
  have s3: "state_m m3 = st_01"
    by (simp add: m3(2) s2 next_of_two_stage)
  obtain m4 where m4: "event two_stage pass_through sink_drain msg4 m3 = Inr m4"
    "state_m m4 = next_of two_stage (state_m m3) sink_drain"
    using event_two_stage_pass_through [of sink_drain msg4 m3] by auto
  have s4: "state_m m4 = st_00"
    by (simp add: m4(2) s3 next_of_two_stage)
  show ?thesis
    using m1(1) m2(1) m3(1) m4(1) s1 s2 s3 s4
    by (simp add: do_fill_def do_push_def do_pull_def do_drain_def state_def)
qed

section \<open>Shutdown\<close>

lemma shutdown_two_stage:
  "\<exists>m'. event two_stage P shutdown msg m = Inr m' \<and> state_m m' = state_m m \<and>
        next_state_m m' = error_2 \<and> debug_m m' = debug_m m \<and>
        PortFiniteStateMachine.more m' = PortFiniteStateMachine.more m"
  by (simp add: event_shutdown print_two_stage)

lemma shutdown_three_stage_quiet:
  "\<not> debug_m m \<Longrightarrow> event three_stage P shutdown [] m = Inr (m\<lparr>next_state_m := error_3\<rparr>)"
  by (simp add: event_shutdown print_three_stage)

text \<open>
  Wherever a call with \<open>shutdown\<close> returns, for either stage count, any policy and any
  message, the object is the one before the call up to \<open>next_state_m\<close>, the counter and
  the output: no callback has run and the committed state is the same.
\<close>

lemma shutdown_returns_unchanged:
  "event E P shutdown msg m = Inr m' \<Longrightarrow>
   state_m m' = state_m m \<and> next_state_m m' = next_of E (state_m m) shutdown \<and>
   debug_m m' = debug_m m \<and> PortFiniteStateMachine.more m' = PortFiniteStateMachine.more m"
  by (auto simp: event_shutdown print_def split: if_splits option.splits)

text \<open>
  Claim C5 (the code departs from it). Shutdown neutrality with any diagnostic message:
  the call is to return at once, no callback invoked, the committed state unchanged. In
  the two-stage machine it does (\<open>shutdown_two_stage\<close>), and in the three-stage machine
  with an empty message and debugging off (\<open>shutdown_three_stage_quiet\<close>). In the
  three-stage machine with a non-empty message the start trace is written before the
  shutdown test; it calls \<^verbatim>\<open>str(state_)\<close>, which indexes the empty vector
  \<^verbatim>\<open>port_state_strings<PortState<three_stage>>\<close>: the call does not return, from any
  state and with any policy.
\<close>

theorem three_stage_shutdown_with_message_faults:
  "event three_stage P shutdown ''shutdown'' m = Inl out_of_range"
  by (simp add: event_three_stage_loud)

text \<open>
  Claim C10. Processing \<open>shutdown\<close> assigns \<open>next_state_\<close> before the early return: the
  shutdown column of both tables is \<open>error\<close> in every row, and after the call returns
  \<open>next_state()\<close> is \<open>error\<close> while \<open>state()\<close> is the state before the call. The
  two-stage call returns so from every state with any message and policy; the three-stage
  call returns so from every state with the default (empty) message and debugging off;
  and wherever a three-stage call returns at all the two accessors give these values.
\<close>

theorem shutdown_sets_next_state:
  "(\<forall>s. next_of two_stage s shutdown = error_2) \<and>
   (\<forall>t. next_of three_stage t shutdown = error_3) \<and>
   (\<exists>m'. event two_stage P shutdown msg m = Inr m' \<and>
         next_state m' = error_2 \<and> state m' = state m) \<and>
   (\<not> debug_m n \<longrightarrow>
      (\<exists>n'. event three_stage Q shutdown [] n = Inr n' \<and>
            next_state n' = error_3 \<and> state n' = state n)) \<and>
   (event three_stage Q shutdown msg' n = Inr n'' \<longrightarrow>
      next_state n'' = error_3 \<and> state n'' = state n)"
  using shutdown_two_stage [of P msg m] shutdown_returns_unchanged [of three_stage Q msg' n n'']
  by (auto simp: shutdown_three_stage_quiet state_def next_state_def)

text \<open>
  Witness for claim C10: the default-constructed three-stage machine has debugging off,
  and its shutdown call returns with \<open>next_state()\<close> = \<open>error\<close> and \<open>state()\<close> = \<open>st_000\<close>.
\<close>

theorem shutdown_sets_next_state_witness:
  "\<not> debug_m (construct three_stage st_000 0 []) \<and>
   event three_stage pass_through shutdown [] (construct three_stage st_000 0 []) =
     Inr \<lparr> state_m = st_000, next_state_m = error_3, debug_m = False, event_counter = 0,
           cout = [] \<rparr> \<and>
   (\<exists>n'. event three_stage pass_through shutdown [] (construct three_stage st_000 0 []) = Inr n' \<and>
         next_state n' = error_3 \<and> state n' = st_000)"
  using shutdown_sets_next_state
    [of pass_through "[]" "construct two_stage st_00 0 []" "construct three_stage st_000 0 []"
      pass_through "[]"
      "\<lparr> state_m = st_000, next_state_m = error_3, debug_m = False, event_counter = 0,
          cout = [] \<rparr>"]
  by (simp add: construct_def state_def three_stage_def [THEN arg_cong, of state_zero]
        shutdown_three_stage_quiet)

section \<open>Transitions to \<open>error\<close>\<close>



text \<open>
  Claim C8 (the code departs from it). A non-shutdown event whose next-state entry is
  \<open>error\<close>, with the pass-through policy: the call is to write the diagnostic line and
  return. In the two-stage machine it does (\<open>error_transition_two_stage\<close>). In the
  three-stage machine the diagnostic line is built with \<^verbatim>\<open>str(state_)\<close>, which indexes
  the empty vector \<^verbatim>\<open>port_state_strings<PortState<three_stage>>\<close>: \<^verbatim>\<open>do_drain()\<close> on the
  default-constructed machine, whose table entry is \<open>error\<close>, does not return.
\<close>

theorem three_stage_error_transition_faults:
  "next_of three_stage (state (construct three_stage nx c out)) sink_drain = error_3 \<and>
   do_drain three_stage pass_through [] (construct three_stage nx c out) = Inl out_of_range"
  by (simp add: do_drain_def event_three_stage_pass_through_quiet construct_def state_def
        three_stage_def [THEN arg_cong, of state_zero] next_of_three_stage)

section \<open>The committed state under the pass-through policy\<close>






section \<open>The default branch of the switches\<close>


lemma unexpected_three_stage: "unexpected three_stage label ac m = out_of_range_in_throw"
  by (simp add: unexpected_def str_action_Some str_three_None)







section \<open>The collapse after an entry-phase move\<close>

lemma post_move_simps [simp]:
  "post_move two_stage = post_move_two" "post_move three_stage = post_move_three"
  by (simp_all add: two_stage_def three_stage_def)

lemma entry_part_two_stage_move:
  "entry_of two_stage (next_state_m m) ev = source_move \<or>
   entry_of two_stage (next_state_m m) ev = sink_move \<Longrightarrow>
   \<exists>m'. event_entry_part two_stage P ev msg old xa m = Inr m' \<and> state_m m' = st_01"
  by (auto simp: event_entry_part_def Let_def print_two_stage entry_phase_def post_move_two_def)

lemma entry_part_three_stage_returns:
  "event_entry_part three_stage Q ev msg old xa n = Inr n' \<Longrightarrow> msg = [] \<and> \<not> debug_m n"
  by (auto simp: event_entry_part_def Let_def print_three_stage split: if_splits)

lemma entry_part_three_stage_source_move:
  "entry_of three_stage (next_state_m n) ev = source_move \<Longrightarrow>
   event_entry_part three_stage Q ev msg old xa n = Inr n' \<Longrightarrow>
   state_m n' = post_move_three (state_m (on_source_move Q (set_state (next_state_m n) n)))"
  by (frule entry_part_three_stage_returns)
     (auto simp: event_entry_part_def Let_def print_three_stage entry_phase_def set_state_def
        split: if_splits)

lemma entry_part_three_stage_sink_move:
  "entry_of three_stage (next_state_m n) ev = sink_move \<Longrightarrow>
   event_entry_part three_stage Q ev msg old xa n = Inr n' \<Longrightarrow>
   state_m n' = post_move_three (state_m (on_sink_move Q (set_state (next_state_m n) n)))"
  by (frule entry_part_three_stage_returns)
     (auto simp: event_entry_part_def Let_def print_three_stage entry_phase_def set_state_def
        split: if_splits)

lemma entry_move_states_three_stage:
  "entry_of three_stage s ev = source_move \<or> entry_of three_stage s ev = sink_move \<Longrightarrow>
   s \<in> {st_010, st_100, st_110, st_101}"
  by (auto simp: entry_of_three_stage spec_entry_3_def split: if_splits)

text \<open>
  Counterexample to claim C4 as stated: a three-stage \<^verbatim>\<open>event(sink_pull)\<close> from \<open>st_000\<close>
  with \<open>rewriting_policy\<close>. The exit action is \<open>sink_wait\<close>, whose callback leaves
  \<open>next_state_\<close> = \<open>st_100\<close>; the state is committed, the entry action read again is
  \<open>sink_move\<close>; its callback sets the state to \<open>st_000\<close>, which the \<^verbatim>\<open>switch\<close> after the
  callback leaves unchanged. The call returns with an entry-phase move done and the
  state neither \<open>st_001\<close> nor \<open>st_011\<close>.
\<close>

theorem move_callback_may_rewrite_state:
  "event_exit_part three_stage rewriting_policy sink_pull [] (construct three_stage st_000 0 []) =
     Inr (Continue (st_000, sink_wait,
       \<lparr> state_m = st_000, next_state_m = st_100, debug_m = False, event_counter = 0,
         cout = [] \<rparr>)) \<and>
   entry_of three_stage st_100 sink_pull = sink_move \<and>
   event three_stage rewriting_policy sink_pull [] (construct three_stage st_000 0 []) =
     Inr \<lparr> state_m = st_000, next_state_m = st_100, debug_m = False, event_counter = 0,
           cout = [] \<rparr> \<and>
   state \<lparr> state_m = st_000, next_state_m = st_100, debug_m = False, event_counter = 0,
           cout = [] \<rparr> \<notin> {st_001, st_011}"
  by (simp add: event_def event_exit_part_def event_entry_part_def Let_def construct_def
        three_stage_def [THEN arg_cong, of state_zero] next_of_three_stage exit_of_three_stage
        entry_of_three_stage spec_exit_3_def spec_entry_3_def print_three_stage exit_phase_def
        entry_phase_def rewriting_policy_def pass_through_def set_state_def set_next_state_def
        state_def)

text \<open>
  Claim C4, amended. Let the entry action read after the commit be \<open>source_move\<close> or
  \<open>sink_move\<close>; the second half of \<^verbatim>\<open>event\<close> then calls the move callback of the policy
  and collapses the state, in the same way for both actions. Two-stage: the call returns
  and the state is \<open>st_01\<close>, whatever the callback did. Three-stage: where the call
  returns, with \<open>s\<close> the state the callback returned with, the state is \<open>st_001\<close> for \<open>s\<close>
  in \<open>st_010\<close>, \<open>st_100\<close>, it is \<open>st_011\<close> for \<open>s\<close> in \<open>st_110\<close>, \<open>st_101\<close>, and it is \<open>s\<close>
  otherwise; so it is one of \<open>st_001\<close>, \<open>st_011\<close> whenever the callback returned with the
  committed state it was called with.
\<close>

theorem move_collapse:
  "ea = source_move \<or> ea = sink_move \<Longrightarrow>
   (entry_of two_stage (next_state_m m) ev = ea \<longrightarrow>
      (\<exists>m'. event_entry_part two_stage P ev msg old xa m = Inr m' \<and> state m' = st_01)) \<and>
   (entry_of three_stage (next_state_m n) ev' = ea \<and>
    event_entry_part three_stage Q ev' msg' old' xa' n = Inr n' \<longrightarrow>
      (let s = state ((if ea = source_move then on_source_move Q else on_sink_move Q)
                        (set_state (next_state_m n) n))
       in (s \<in> {st_010, st_100} \<longrightarrow> state n' = st_001) \<and>
          (s \<in> {st_110, st_101} \<longrightarrow> state n' = st_011) \<and>
          (s \<notin> {st_010, st_100, st_110, st_101} \<longrightarrow> state n' = s) \<and>
          (s = next_state_m n \<longrightarrow> state n' \<in> {st_001, st_011})))"
proof (intro conjI impI)
  assume ea: "ea = source_move \<or> ea = sink_move"
  {
    assume "entry_of two_stage (next_state_m m) ev = ea"
    with ea show "\<exists>m'. event_entry_part two_stage P ev msg old xa m = Inr m' \<and> state m' = st_01"
      using entry_part_two_stage_move [of m ev P msg old xa] by (auto simp: state_def)
  }
  {
    assume h: "entry_of three_stage (next_state_m n) ev' = ea \<and>
      event_entry_part three_stage Q ev' msg' old' xa' n = Inr n'"
    define s where
      "s = state_m ((if ea = source_move then on_source_move Q else on_sink_move Q)
                      (set_state (next_state_m n) n))"
    have n': "state_m n' = post_move_three s"
      using ea h entry_part_three_stage_source_move [of n ev' Q msg' old' xa' n']
        entry_part_three_stage_sink_move [of n ev' Q msg' old' xa' n']
      by (auto simp: s_def)
    have moving: "next_state_m n \<in> {st_010, st_100, st_110, st_101}"
      using ea h entry_move_states_three_stage [of "next_state_m n" ev'] by auto
    have "(s \<in> {st_010, st_100} \<longrightarrow> state_m n' = st_001) \<and>
          (s \<in> {st_110, st_101} \<longrightarrow> state_m n' = st_011) \<and>
          (s \<notin> {st_010, st_100, st_110, st_101} \<longrightarrow> state_m n' = s) \<and>
          (s = next_state_m n \<longrightarrow> state_m n' \<in> {st_001, st_011})"
      using moving unfolding n' by (cases s) auto
    then show "let s = state ((if ea = source_move then on_source_move Q else on_sink_move Q)
                        (set_state (next_state_m n) n))
       in (s \<in> {st_010, st_100} \<longrightarrow> state n' = st_001) \<and>
          (s \<in> {st_110, st_101} \<longrightarrow> state n' = st_011) \<and>
          (s \<notin> {st_010, st_100, st_110, st_101} \<longrightarrow> state n' = s) \<and>
          (s = next_state_m n \<longrightarrow> state n' \<in> {st_001, st_011})"
      by (simp add: Let_def state_def s_def)
  }
qed

text \<open>
  Witness for claim C4. The entry action \<open>sink_move\<close> with the pass-through policy, read
  at \<open>st_10\<close> (two-stage, with a message) and at \<open>st_100\<close> (three-stage): the states
  after the call are \<open>st_01\<close> and \<open>st_001\<close>. The entry action \<open>source_move\<close> read at
  \<open>st_110\<close>: the state after the call is \<open>st_011\<close>. The entry action \<open>sink_move\<close> with
  \<open>rewriting_policy\<close>: the callback returns with \<open>st_000\<close>, which stays.
\<close>

theorem move_collapse_witness:
  "(sink_move = source_move \<or> sink_move = sink_move) \<and>
   entry_of two_stage (next_state_m (construct two_stage st_10 0 [])) sink_pull = sink_move \<and>
   (\<exists>m'. event_entry_part two_stage pass_through sink_pull ''pull'' st_00 sink_wait
           (construct two_stage st_10 0 []) = Inr m' \<and> state m' = st_01) \<and>
   entry_of three_stage (next_state_m (construct three_stage st_100 0 [])) sink_pull = sink_move \<and>
   event_entry_part three_stage pass_through sink_pull [] st_000 sink_wait
     (construct three_stage st_100 0 []) =
     Inr \<lparr> state_m = st_001, next_state_m = st_100, debug_m = False, event_counter = 0,
           cout = [] \<rparr> \<and>
   (source_move = source_move \<or> source_move = sink_move) \<and>
   entry_of three_stage (next_state_m (construct three_stage st_110 0 [])) source_push =
     source_move \<and>
   event_entry_part three_stage pass_through source_push [] st_000 source_wait
     (construct three_stage st_110 0 []) =
     Inr \<lparr> state_m = st_011, next_state_m = st_110, debug_m = False, event_counter = 0,
           cout = [] \<rparr> \<and>
   event_entry_part three_stage rewriting_policy sink_pull [] st_000 sink_wait
     (construct three_stage st_100 0 []) =
     Inr \<lparr> state_m = st_000, next_state_m = st_100, debug_m = False, event_counter = 0,
           cout = [] \<rparr>"
  using move_collapse
    [of sink_move "construct two_stage st_10 0 []" sink_pull pass_through "''pull''" st_00
      sink_wait "construct three_stage st_100 0 []" sink_pull pass_through "[]" st_000 sink_wait
      "\<lparr> state_m = st_001, next_state_m = st_100, debug_m = False, event_counter = 0,
          cout = [] \<rparr>"]
    move_collapse
    [of source_move "construct two_stage st_10 0 []" source_push pass_through "[]" st_00
      source_wait "construct three_stage st_110 0 []" source_push pass_through "[]" st_000
      source_wait
      "\<lparr> state_m = st_011, next_state_m = st_110, debug_m = False, event_counter = 0,
          cout = [] \<rparr>"]
    move_collapse
    [of sink_move "construct two_stage st_10 0 []" sink_pull pass_through "[]" st_00
      sink_wait "construct three_stage st_100 0 []" sink_pull rewriting_policy "[]" st_000
      sink_wait
      "\<lparr> state_m = st_000, next_state_m = st_100, debug_m = False, event_counter = 0,
          cout = [] \<rparr>"]
  by (simp add: construct_def entry_of_two_stage entry_of_three_stage spec_entry_2_def
        spec_entry_3_def event_entry_part_def Let_def print_three_stage entry_phase_def
        pass_through_def rewriting_policy_def set_state_def set_next_state_def state_def)

end
